theory Spec2Isabelle
  imports Complex_Main "HOL-Library.AList" "HOL-Library.Multiset"
begin

section \<open>Python primitives used by the calculator\<close>

text \<open>
  Python floats are modelled as the real numbers they approximate, so every statement
  below is about exact arithmetic. Strings are lists of characters with code points
  below 256; dictionaries are association lists in insertion order, looked up with
  \<open>map_of\<close> and updated with \<open>AList.update\<close> (an existing key keeps its place, a new
  key goes to the end, as in a Python dict).
\<close>

datatype error = UnknownCategory | UnknownActivity | ZeroDivisionError

text \<open>
  \<open>str.lower()\<close> on code points below 256: the letters A-Z and the Latin-1 capitals
  (192-222 without the multiplication sign 215) move up by 32.
\<close>

definition lower_char :: "char \<Rightarrow> char" where
  "lower_char c =
     (let n = (of_char c :: nat)
      in if (65 \<le> n \<and> n \<le> 90) \<or> (192 \<le> n \<and> n \<le> 222 \<and> n \<noteq> 215)
         then char_of (n + 32) else c)"

definition lower :: "string \<Rightarrow> string" where
  "lower s = map lower_char s"

text \<open>Float division: a zero divisor raises.\<close>

definition py_div :: "real \<Rightarrow> real \<Rightarrow> error + real" where
  "py_div a b = (if b = 0 then Inl ZeroDivisionError else Inr (a / b))"

text \<open>
  \<open>round(x, ndigits)\<close> rounds to the nearest multiple of \<open>10 ^ - ndigits\<close>, a tie going
  to the even neighbour.
\<close>

definition round_half_even :: "real \<Rightarrow> int" where
  "round_half_even x =
     (let f = \<lfloor>x\<rfloor>; d = x - of_int f
      in if d < 1 / 2 then f
         else if 1 / 2 < d then f + 1
         else if even f then f else f + 1)"

definition py_round :: "real \<Rightarrow> nat \<Rightarrow> real" where
  "py_round x ndigits = of_int (round_half_even (x * 10 ^ ndigits)) / 10 ^ ndigits"

section \<open>backend/api/main.py\<close>

subsection \<open>Data model\<close>

text \<open>
  A row of the table \<open>emissions\<close>. The column \<open>id\<close> is the field \<open>record_id\<close>; a
  timestamp is a number of microseconds since the epoch.
\<close>

record EmissionRecord =
  record_id :: int
  category :: string
  activity :: string
  amount :: real
  unit :: string
  co2_kg :: real
  timestamp :: int
  user_id :: string

record EmissionInput =
  data_category :: string
  data_activity :: string
  data_amount :: real
  data_unit :: string

text \<open>The table \<open>emissions\<close>, in insertion order.\<close>

type_synonym db = "EmissionRecord list"

definition CARBON_FACTORS :: "(string \<times> (string \<times> real) list) list" where
  "CARBON_FACTORS =
     [(''transport'',
         [(''car_petrol'', 0.192), (''car_diesel'', 0.171), (''bus'', 0.105),
          (''train'', 0.041), (''plane_short'', 0.15), (''plane_long'', 0.09),
          (''motorcycle'', 0.103), (''electric_car'', 0.05)]),
      (''electricity'',
         [(''grid'', 0.5), (''solar'', 0.05), (''wind'', 0.011), (''coal'', 0.82)]),
      (''food'',
         [(''beef'', 27.0), (''chicken'', 6.9), (''pork'', 12.1), (''fish'', 6.1),
          (''rice'', 4.0), (''vegetables'', 2.0), (''milk'', 1.9), (''cheese'', 13.5)]),
      (''waste'',
         [(''landfill'', 0.5), (''recycled'', 0.1), (''composted'', 0.3),
          (''plastic'', 2.5)])]"

subsection \<open>Equivalents\<close>

record Equivalents =
  trees_needed :: real
  km_by_car :: real
  smartphones_charged :: real
  hours_of_tv :: real

definition get_equivalents :: "real \<Rightarrow> Equivalents" where
  "get_equivalents co2 =
     \<lparr>trees_needed = py_round (co2 / 21.77) 1,
      km_by_car = py_round (co2 / 0.192) 1,
      smartphones_charged = py_round (co2 / 0.008) 0,
      hours_of_tv = py_round (co2 / 0.088) 1\<rparr>"

definition get_default_unit :: "string \<Rightarrow> string" where
  "get_default_unit cat =
     (case map_of [(''transport'', ''km''), (''electricity'', ''kWh''),
                   (''food'', ''kg''), (''waste'', ''kg'')] cat of
        None \<Rightarrow> ''unit'' | Some u \<Rightarrow> u)"

subsection \<open>POST /calculate\<close>

record Calculation =
  calc_category :: string
  calc_activity :: string
  calc_amount :: real
  calc_unit :: string
  calc_co2_kg :: real
  factor_used :: real
  equivalents :: Equivalents

record CalcResponse =
  success :: bool
  response_id :: int
  calculation :: Calculation
  response_timestamp :: int

text \<open>The primary key the store gives the next row: one more than the largest so far.\<close>

definition next_id :: "db \<Rightarrow> int" where
  "next_id d = fold max (map record_id d) 0 + 1"

text \<open>
  \<open>now\<close> is the reading of \<open>datetime.utcnow\<close> that the column default takes when the
  row is inserted. The result is the table after the commit and the response.
\<close>

definition calculate_emission ::
  "int \<Rightarrow> EmissionInput \<Rightarrow> db \<Rightarrow> error + (db \<times> CalcResponse)" where
  "calculate_emission now data d =
     (let cat = lower (data_category data)
      in case map_of CARBON_FACTORS cat of
           None \<Rightarrow> Inl UnknownCategory
         | Some acts \<Rightarrow>
             (let act = lower (data_activity data)
              in case map_of acts act of
                   None \<Rightarrow> Inl UnknownActivity
                 | Some factor \<Rightarrow>
                     (let co2 = data_amount data * factor;
                          row = \<lparr>record_id = next_id d, category = cat, activity = act,
                                 amount = data_amount data, unit = data_unit data,
                                 co2_kg = co2, timestamp = now,
                                 user_id = ''demo_user''\<rparr>
                      in Inr (d @ [row],
                              \<lparr>success = True, response_id = record_id row,
                               calculation =
                                 \<lparr>calc_category = cat, calc_activity = act,
                                  calc_amount = data_amount data,
                                  calc_unit = data_unit data,
                                  calc_co2_kg = py_round co2 2,
                                  factor_used = factor,
                                  equivalents = get_equivalents co2\<rparr>,
                               response_timestamp = timestamp row\<rparr>))))"

subsection \<open>GET /history\<close>

record HistoryItem =
  item_id :: int
  item_category :: string
  item_activity :: string
  item_amount :: real
  item_unit :: string
  item_co2_kg :: real
  item_timestamp :: int

record HistoryResponse =
  history_total_records :: nat
  total_co2_kg :: real
  records :: "HistoryItem list"

text \<open>
  \<open>ORDER BY timestamp DESC\<close>: newest first. SQL leaves the order of rows with equal
  timestamps open; here they stay in insertion order.
\<close>

definition order_by_timestamp_desc :: "db \<Rightarrow> db" where
  "order_by_timestamp_desc d = sort_key (\<lambda>r. - timestamp r) d"

text \<open>
  \<open>LIMIT n\<close> as SQLite evaluates it: a negative \<open>n\<close> puts no bound on the number of
  rows.
\<close>

definition sql_limit :: "int \<Rightarrow> 'a list \<Rightarrow> 'a list" where
  "sql_limit n rows = (if n < 0 then rows else take (nat n) rows)"

definition history_item :: "EmissionRecord \<Rightarrow> HistoryItem" where
  "history_item r =
     \<lparr>item_id = record_id r, item_category = category r, item_activity = activity r,
      item_amount = amount r, item_unit = unit r, item_co2_kg = py_round (co2_kg r) 2,
      item_timestamp = timestamp r\<rparr>"

text \<open>The query parameter \<open>limit\<close> is optional: \<open>None\<close> is a request without it.\<close>

definition get_history :: "int option \<Rightarrow> db \<Rightarrow> HistoryResponse" where
  "get_history limit_param d =
     (let limit = (case limit_param of None \<Rightarrow> 20 | Some n \<Rightarrow> n);
          rs = sql_limit limit (order_by_timestamp_desc d);
          total_co2 = (if rs \<noteq> [] then sum_list (map co2_kg rs) else 0)
      in \<lparr>history_total_records = length rs,
          total_co2_kg = py_round total_co2 2,
          records = map history_item rs\<rparr>)"

subsection \<open>GET /stats\<close>

record CategoryData =
  total :: real
  count :: int
  activities :: "(string \<times> real) list"

record CategoryStats = CategoryData +
  percentage :: real

type_synonym breakdown = "(string \<times> CategoryStats) list"

text \<open>
  The canned messages of \<open>get_recommendations\<close>, in the order of the source:
  transport ("Your transport emissions are high. Consider carpooling or public
  transport."), food ("Consider reducing meat consumption, especially beef."),
  electricity ("Switch to energy-efficient appliances and LED bulbs.") and the closing
  "Your emissions are well balanced across categories!".
\<close>

datatype recommendation =
  TransportHigh | ReduceMeat | EfficientAppliances | WellBalanced

fun category_recs :: "breakdown \<Rightarrow> recommendation list" where
  "category_recs [] = []"
| "category_recs ((cat, data) # rest) =
     (if percentage data > 40
      then (if cat = ''transport'' then [TransportHigh]
            else if cat = ''food'' then [ReduceMeat]
            else if cat = ''electricity'' then [EfficientAppliances]
            else [])
      else []) @ category_recs rest"

definition get_recommendations :: "breakdown \<Rightarrow> recommendation list" where
  "get_recommendations bd =
     (let recs = category_recs bd in if recs = [] then [WellBalanced] else recs)"

text \<open>One pass of the loop that fills the breakdown.\<close>

definition add_record :: "(string \<times> CategoryData) list \<Rightarrow> EmissionRecord \<Rightarrow>
    (string \<times> CategoryData) list" where
  "add_record bd r =
     (let entry = (case map_of bd (category r) of
                     None \<Rightarrow> \<lparr>total = 0, count = 0, activities = []\<rparr>
                   | Some e \<Rightarrow> e);
          acts = activities entry;
          old = (case map_of acts (activity r) of None \<Rightarrow> 0 | Some v \<Rightarrow> v)
      in AList.update (category r)
           \<lparr>total = total entry + co2_kg r, count = count entry + 1,
            activities = AList.update (activity r) (old + co2_kg r) acts\<rparr> bd)"

text \<open>The loop that adds the percentage and rounds the total of each category.\<close>

fun add_percentages :: "real \<Rightarrow> (string \<times> CategoryData) list \<Rightarrow> error + breakdown" where
  "add_percentages total_co2 [] = Inr []"
| "add_percentages total_co2 ((cat, e) # rest) =
     (case py_div (total e) total_co2 of
        Inl err \<Rightarrow> Inl err
      | Inr q \<Rightarrow>
          (case add_percentages total_co2 rest of
             Inl err \<Rightarrow> Inl err
           | Inr rest' \<Rightarrow>
               Inr ((cat, \<lparr>total = py_round (total e) 2, count = count e,
                           activities = activities e,
                           percentage = py_round (q * 100) 1\<rparr>) # rest')))"

fun oldest_timestamp :: "db \<Rightarrow> int" where
  "oldest_timestamp [] = 0"
| "oldest_timestamp [r] = timestamp r"
| "oldest_timestamp (r # rs) = min (timestamp r) (oldest_timestamp rs)"

fun newest_timestamp :: "db \<Rightarrow> int" where
  "newest_timestamp [] = 0"
| "newest_timestamp [r] = timestamp r"
| "newest_timestamp (r # rs) = max (timestamp r) (newest_timestamp rs)"

text \<open>\<open>timedelta.days\<close> of the difference of two timestamps: whole periods of 24 hours.\<close>

definition timedelta_days :: "int \<Rightarrow> int \<Rightarrow> int" where
  "timedelta_days newest oldest = (newest - oldest) div 86400000000"

record Summary =
  total_emissions_kg :: real
  total_records :: nat
  daily_average_kg :: real
  recording_period_days :: int

record Statistics =
  summary :: Summary
  breakdown :: breakdown
  stats_equivalents :: Equivalents
  recommendations :: "recommendation list"

text \<open>
  The two shapes of the answer: the notice \<open>{"message": ...}\<close> for an empty table, or
  the statistics.
\<close>

datatype stats_response = Message string | Stats Statistics

definition get_statistics :: "db \<Rightarrow> error + stats_response" where
  "get_statistics d =
     (if d = [] then Inr (Message ''No data yet. Make some calculations first!'')
      else
        (let total_co2 = sum_list (map co2_kg d);
             bd0 = foldl add_record [] d
         in case add_percentages total_co2 bd0 of
              Inl err \<Rightarrow> Inl err
            | Inr bd \<Rightarrow>
                (let oldest = oldest_timestamp d;
                     newest = newest_timestamp d;
                     days = timedelta_days newest oldest;
                     days_diff = (if days \<noteq> 0 then days else 1)
                 in case py_div total_co2 (of_int days_diff) of
                      Inl err \<Rightarrow> Inl err
                    | Inr daily_avg \<Rightarrow>
                        Inr (Stats
                          \<lparr>summary =
                             \<lparr>total_emissions_kg = py_round total_co2 2,
                              total_records = length d,
                              daily_average_kg = py_round daily_avg 2,
                              recording_period_days = days_diff\<rparr>,
                           breakdown = bd,
                           stats_equivalents = get_equivalents total_co2,
                           recommendations = get_recommendations bd\<rparr>))))"

section \<open>backend/simple_api.py\<close>

text \<open>
  The second service keeps the same table through raw SQL and reads a row by position:
  \<open>rec[0]\<close> is the id, \<open>rec[1]\<close> the category, \<open>rec[2]\<close> the activity, \<open>rec[3]\<close> the
  amount, \<open>rec[4]\<close> the unit, \<open>rec[5]\<close> the CO2 mass and \<open>rec[6]\<close> the timestamp (an
  ISO-8601 text, whose order is the order of the instants it denotes).
\<close>

record Row =
  row_id :: int
  row_category :: string
  row_activity :: string
  row_amount :: real
  row_unit :: string
  row_co2_kg :: real
  row_timestamp :: int

record CalculationRequest =
  req_category :: string
  req_activity :: string
  req_amount :: real

definition simple_CARBON_FACTORS :: "(string \<times> (string \<times> real) list) list" where
  "simple_CARBON_FACTORS =
     [(''transport'',
         [(''car_petrol'', 0.192), (''car_diesel'', 0.171), (''bus'', 0.105),
          (''train'', 0.041), (''plane'', 0.15), (''electric_car'', 0.05)]),
      (''electricity'', [(''grid'', 0.5), (''solar'', 0.05), (''wind'', 0.011)]),
      (''food'',
         [(''beef'', 6.0), (''chicken'', 6.9), (''rice'', 4.0), (''vegetables'', 2.0)]),
      (''waste'', [(''landfill'', 0.5), (''recycled'', 0.1), (''composted'', 0.3)])]"

definition get_unit :: "string \<Rightarrow> string" where
  "get_unit cat =
     (case map_of [(''transport'', ''km''), (''electricity'', ''kWh''),
                   (''food'', ''kg''), (''waste'', ''kg'')] cat of
        None \<Rightarrow> ''unit'' | Some u \<Rightarrow> u)"

text \<open>\<open>save_to_db\<close> returns the table with the new row and the row's id.\<close>

definition save_to_db ::
  "int \<Rightarrow> string \<Rightarrow> string \<Rightarrow> real \<Rightarrow> real \<Rightarrow> Row list \<Rightarrow> Row list \<times> int" where
  "save_to_db now cat act amt co2 rows =
     (let last_id = fold max (map row_id rows) 0 + 1
      in (rows @ [\<lparr>row_id = last_id, row_category = cat, row_activity = act,
                   row_amount = amt, row_unit = get_unit cat, row_co2_kg = co2,
                   row_timestamp = now\<rparr>], last_id))"

text \<open>\<open>SELECT * FROM emissions ORDER BY timestamp DESC LIMIT 20\<close>\<close>

definition get_all_records :: "Row list \<Rightarrow> Row list" where
  "get_all_records rows = sql_limit 20 (sort_key (\<lambda>r. - row_timestamp r) rows)"

record SimpleCalcResponse =
  simple_success :: bool
  simple_id :: int
  simple_category :: string
  simple_activity :: string
  simple_amount :: real
  simple_unit :: string
  simple_co2_kg :: real
  simple_factor_used :: real
  simple_timestamp :: int

text \<open>
  \<open>now\<close> is the clock reading stored with the row, \<open>now'\<close> the later one put into the
  response.
\<close>

definition calculate ::
  "int \<Rightarrow> int \<Rightarrow> CalculationRequest \<Rightarrow> Row list \<Rightarrow> error + (Row list \<times> SimpleCalcResponse)"
  where
  "calculate now now' data rows =
     (let cat = lower (req_category data);
          act = lower (req_activity data)
      in case map_of simple_CARBON_FACTORS cat of
           None \<Rightarrow> Inl UnknownCategory
         | Some acts \<Rightarrow>
             (case map_of acts act of
                None \<Rightarrow> Inl UnknownActivity
              | Some factor \<Rightarrow>
                  (let co2 = req_amount data * factor;
                       (rows', new_id) = save_to_db now cat act (req_amount data) co2 rows
                   in Inr (rows',
                           \<lparr>simple_success = True, simple_id = new_id,
                            simple_category = cat, simple_activity = act,
                            simple_amount = req_amount data, simple_unit = get_unit cat,
                            simple_co2_kg = py_round co2 2, simple_factor_used = factor,
                            simple_timestamp = now'\<rparr>))))"


record SimpleEquivalents =
  simple_trees_needed :: real
  simple_km_by_car :: real

record SimpleStatistics =
  simple_total_emissions_kg :: real
  simple_total_records :: nat
  simple_breakdown :: "(string \<times> real) list"
  percentages :: "(string \<times> real) list"
  simple_equivalents :: SimpleEquivalents

datatype simple_stats_response = SimpleMessage string | SimpleStats SimpleStatistics

definition add_row :: "(string \<times> real) list \<Rightarrow> Row \<Rightarrow> (string \<times> real) list" where
  "add_row bd r =
     (let old = (case map_of bd (row_category r) of None \<Rightarrow> 0 | Some v \<Rightarrow> v)
      in AList.update (row_category r) (old + row_co2_kg r) bd)"

fun simple_percentages :: "real \<Rightarrow> (string \<times> real) list \<Rightarrow> error + (string \<times> real) list"
  where
  "simple_percentages total_co2 [] = Inr []"
| "simple_percentages total_co2 ((cat, co2) # rest) =
     (case py_div co2 total_co2 of
        Inl err \<Rightarrow> Inl err
      | Inr q \<Rightarrow>
          (case simple_percentages total_co2 rest of
             Inl err \<Rightarrow> Inl err
           | Inr rest' \<Rightarrow> Inr ((cat, py_round (q * 100) 1) # rest')))"

definition stats :: "Row list \<Rightarrow> error + simple_stats_response" where
  "stats rows =
     (let recs = get_all_records rows
      in if recs = [] then Inr (SimpleMessage ''No data yet'')
         else
           (let total_co2 = sum_list (map row_co2_kg recs);
                bd = foldl add_row [] recs
            in case simple_percentages total_co2 bd of
                 Inl err \<Rightarrow> Inl err
               | Inr pcts \<Rightarrow>
                   Inr (SimpleStats
                     \<lparr>simple_total_emissions_kg = py_round total_co2 2,
                      simple_total_records = length recs,
                      simple_breakdown = bd,
                      percentages = pcts,
                      simple_equivalents =
                        \<lparr>simple_trees_needed = py_round (total_co2 / 21.77) 1,
                         simple_km_by_car = py_round (total_co2 / 0.192) 1\<rparr>\<rparr>)))"

section \<open>Example inputs\<close>

definition example_input :: EmissionInput where
  "example_input =
     \<lparr>data_category = ''Transport'', data_activity = ''CAR_PETROL'', data_amount = 100,
      data_unit = ''km''\<rparr>"

definition example_request :: CalculationRequest where
  "example_request = \<lparr>req_category = ''food'', req_activity = ''Beef'', req_amount = - 2\<rparr>"

definition unknown_category_input :: EmissionInput where
  "unknown_category_input =
     \<lparr>data_category = ''Space'', data_activity = ''car_petrol'', data_amount = 1,
      data_unit = ''km''\<rparr>"

definition unknown_activity_input :: EmissionInput where
  "unknown_activity_input =
     \<lparr>data_category = ''FOOD'', data_activity = ''rocket'', data_amount = 1,
      data_unit = ''kg''\<rparr>"

definition example_breakdown :: breakdown where
  "example_breakdown =
     [(''transport'', \<lparr>total = 19.2, count = 1, activities = [(''car_petrol'', 19.2)], percentage = 6.5\<rparr>),
      (''food'', \<lparr>total = 270, count = 1, activities = [(''beef'', 270)], percentage = 91.8\<rparr>),
      (''electricity'', \<lparr>total = 5, count = 1, activities = [(''grid'', 5)], percentage = 1.7\<rparr>)]"

definition zero_amount_input :: EmissionInput where
  "zero_amount_input =
     \<lparr>data_category = ''transport'', data_activity = ''bus'', data_amount = 0,
      data_unit = ''km''\<rparr>"

definition zero_db :: db where
  "zero_db =
     [\<lparr>record_id = 1, category = ''transport'', activity = ''bus'', amount = 0,
       unit = ''km'', co2_kg = 0, timestamp = 0, user_id = ''demo_user''\<rparr>]"

definition zero_amount_request :: CalculationRequest where
  "zero_amount_request =
     \<lparr>req_category = ''transport'', req_activity = ''bus'', req_amount = 0\<rparr>"

definition zero_rows :: "Row list" where
  "zero_rows =
     [\<lparr>row_id = 1, row_category = ''transport'', row_activity = ''bus'', row_amount = 0,
       row_unit = ''km'', row_co2_kg = 0, row_timestamp = 0\<rparr>]"



definition petrol_db :: db where
  "petrol_db =
     [\<lparr>record_id = 1, category = ''transport'', activity = ''car_petrol'', amount = 1,
       unit = ''km'', co2_kg = 0.192, timestamp = 0, user_id = ''demo_user''\<rparr>]"

definition petrol_stats :: Statistics where
  "petrol_stats =
     \<lparr>summary = \<lparr>total_emissions_kg = 0.19, total_records = 1, daily_average_kg = 0.19,
                  recording_period_days = 1\<rparr>,
      breakdown = [(''transport'', \<lparr>total = 0.19, count = 1,
                                    activities = [(''car_petrol'', 0.192)],
                                    percentage = 100\<rparr>)],
      stats_equivalents = \<lparr>trees_needed = 0, km_by_car = 1, smartphones_charged = 24,
                            hours_of_tv = 2.2\<rparr>,
      recommendations = [TransportHigh]\<rparr>"

definition example_db :: db where
  "example_db =
     [\<lparr>record_id = 1, category = ''transport'', activity = ''car_petrol'', amount = 100,
       unit = ''km'', co2_kg = 19.2, timestamp = 0, user_id = ''demo_user''\<rparr>,
      \<lparr>record_id = 2, category = ''food'', activity = ''beef'', amount = 10,
       unit = ''kg'', co2_kg = 270, timestamp = 3600000000, user_id = ''demo_user''\<rparr>,
      \<lparr>record_id = 3, category = ''electricity'', activity = ''grid'', amount = 10,
       unit = ''kWh'', co2_kg = 5, timestamp = 176400000000, user_id = ''demo_user''\<rparr>]"

definition example_stats :: Statistics where
  "example_stats =
     \<lparr>summary = \<lparr>total_emissions_kg = 294.2, total_records = 3, daily_average_kg = 147.1,
                  recording_period_days = 2\<rparr>,
      breakdown =
        [(''transport'', \<lparr>total = 19.2, count = 1, activities = [(''car_petrol'', 19.2)],
                          percentage = 6.5\<rparr>),
         (''food'', \<lparr>total = 270, count = 1, activities = [(''beef'', 270)],
                     percentage = 91.8\<rparr>),
         (''electricity'', \<lparr>total = 5, count = 1, activities = [(''grid'', 5)],
                            percentage = 1.7\<rparr>)],
      stats_equivalents = \<lparr>trees_needed = 13.5, km_by_car = 1532.3,
                            smartphones_charged = 36775, hours_of_tv = 3343.2\<rparr>,
      recommendations = [ReduceMeat]\<rparr>"

definition row_at :: "int \<Rightarrow> Row" where
  "row_at i =
     \<lparr>row_id = i, row_category = ''food'', row_activity = ''rice'', row_amount = 1,
      row_unit = ''kg'', row_co2_kg = 4, row_timestamp = i\<rparr>"

definition rows21 :: "Row list" where
  "rows21 = map row_at [1, 2, 3, 4, 5, 6, 7, 8, 9, 10, 11, 12, 13, 14, 15, 16, 17, 18, 19,
                        20, 21]"

definition rows21_stats :: SimpleStatistics where
  "rows21_stats =
     \<lparr>simple_total_emissions_kg = 80, simple_total_records = 20,
      simple_breakdown = [(''food'', 80)], percentages = [(''food'', 100)],
      simple_equivalents = \<lparr>simple_trees_needed = 3.7, simple_km_by_car = 416.7\<rparr>\<rparr>"

definition balanced_breakdown :: breakdown where
  "balanced_breakdown =
     [(''transport'', \<lparr>total = 40, count = 2, activities = [(''bus'', 40)],
                       percentage = 40\<rparr>),
      (''food'', \<lparr>total = 35, count = 1, activities = [(''rice'', 35)], percentage = 35\<rparr>),
      (''waste'', \<lparr>total = 25, count = 1, activities = [(''plastic'', 25)],
                   percentage = 25\<rparr>)]"

section \<open>The primitives\<close>

lemma lower_examples:
  "lower ''Transport'' = ''transport''" "lower ''CAR_PETROL'' = ''car_petrol''"
  "lower ''food'' = ''food''" "lower ''Beef'' = ''beef''"
  "lower ''Space'' = ''space''" "lower ''car_petrol'' = ''car_petrol''"
  "lower ''FOOD'' = ''food''" "lower ''rocket'' = ''rocket''"
  "lower ''transport'' = ''transport''" "lower ''bus'' = ''bus''"
  by code_simp+

lemma round_half_even_bounds: "\<bar>real_of_int (round_half_even x) - x\<bar> \<le> 1 / 2"
  unfolding round_half_even_def Let_def by (auto; linarith)

lemma round_half_even_of_int: "round_half_even (of_int k) = k"
  by (simp add: round_half_even_def)

lemma py_round_zero: "py_round 0 n = 0"
  by (simp add: py_round_def round_half_even_def)

lemma py_round_grid: "\<exists>k::int. py_round x n = of_int k / 10 ^ n"
  by (auto simp: py_round_def)

lemma py_round_error: "\<bar>py_round x n - x\<bar> \<le> 1 / (2 * 10 ^ n)"
proof -
  define r where "r = real_of_int (round_half_even (x * 10 ^ n))"
  have h: "\<bar>r - x * 10 ^ n\<bar> \<le> 1 / 2"
    unfolding r_def by (rule round_half_even_bounds)
  have pos: "(0::real) < 10 ^ n" by simp
  have "py_round x n - x = (r - x * 10 ^ n) / 10 ^ n"
    by (simp add: py_round_def r_def diff_divide_distrib)
  then have "\<bar>py_round x n - x\<bar> = \<bar>r - x * 10 ^ n\<bar> / 10 ^ n"
    by simp
  also have "\<dots> \<le> (1 / 2) / 10 ^ n"
    using h pos by (rule divide_right_mono[OF _ less_imp_le])
  finally show ?thesis by simp
qed

section \<open>The calculator\<close>

text \<open>
  C1. For a (category, activity) pair of the factor table, looked up after lower-casing
  both, and any amount (no sign is asked of it), the calculation succeeds and the CO2
  mass it computes and stores is the amount times the registered factor; that factor is
  the one reported as \<open>factor_used\<close>, and the response displays the mass at two
  decimals. This holds for both services, each with its own table.
\<close>

theorem C1_compute_co2_kg:
  "(map_of CARBON_FACTORS (lower (data_category data)) = Some acts \<and>
    map_of acts (lower (data_activity data)) = Some factor \<longrightarrow>
      (\<exists>row resp. calculate_emission now data d = Inr (d @ [row], resp) \<and>
         category row = lower (data_category data) \<and>
         activity row = lower (data_activity data) \<and>
         co2_kg row = data_amount data * factor \<and>
         factor_used (calculation resp) = factor \<and>
         calc_co2_kg (calculation resp) = py_round (co2_kg row) 2)) \<and>
   (map_of simple_CARBON_FACTORS (lower (req_category rq)) = Some acts' \<and>
    map_of acts' (lower (req_activity rq)) = Some factor' \<longrightarrow>
      (\<exists>row resp. calculate now now' rq rows = Inr (rows @ [row], resp) \<and>
         row_category row = lower (req_category rq) \<and>
         row_activity row = lower (req_activity rq) \<and>
         row_co2_kg row = req_amount rq * factor' \<and>
         simple_factor_used resp = factor' \<and>
         simple_co2_kg resp = py_round (row_co2_kg row) 2))"
  by (simp add: calculate_emission_def calculate_def save_to_db_def Let_def)

theorem C1_compute_co2_kg_witness:
  "(\<exists>row resp. calculate_emission 0 example_input [] = Inr ([row], resp) \<and>
      category row = ''transport'' \<and> activity row = ''car_petrol'' \<and>
      co2_kg row = 19.2 \<and> factor_used (calculation resp) = 0.192 \<and>
      calc_co2_kg (calculation resp) = py_round (co2_kg row) 2) \<and>
   (\<exists>row resp. calculate 0 1 example_request [] = Inr ([row], resp) \<and>
      row_category row = ''food'' \<and> row_activity row = ''beef'' \<and>
      row_co2_kg row = - 12 \<and> simple_factor_used resp = 6 \<and>
      simple_co2_kg resp = py_round (row_co2_kg row) 2)"
proof -
  have m: "map_of CARBON_FACTORS (lower (data_category example_input)) =
             Some (the (map_of CARBON_FACTORS ''transport'')) \<and>
           map_of (the (map_of CARBON_FACTORS ''transport''))
             (lower (data_activity example_input)) = Some 0.192"
    by (simp add: example_input_def lower_examples CARBON_FACTORS_def)
  have s: "map_of simple_CARBON_FACTORS (lower (req_category example_request)) =
             Some (the (map_of simple_CARBON_FACTORS ''food'')) \<and>
           map_of (the (map_of simple_CARBON_FACTORS ''food''))
             (lower (req_activity example_request)) = Some 6"
    by (simp add: example_request_def lower_examples simple_CARBON_FACTORS_def)
  from C1_compute_co2_kg[THEN conjunct1, rule_format, OF m, of 0 "[]"]
       C1_compute_co2_kg[THEN conjunct2, rule_format, OF s, of 0 1 "[]"]
  show ?thesis
    by (simp add: example_input_def example_request_def lower_examples)
qed

text \<open>
  C2. The calculation fails with \<open>UnknownCategory\<close> exactly when the lower-cased
  category is not a key of the factor table, with \<open>UnknownActivity\<close> exactly when the
  category is a key and the lower-cased activity is not a key of its entry, and it
  succeeds exactly when both are found; it has no other failure. Both services.
\<close>

theorem C2_compute_errors:
  "((calculate_emission now data d = Inl UnknownCategory) =
      (map_of CARBON_FACTORS (lower (data_category data)) = None)) \<and>
   ((calculate_emission now data d = Inl UnknownActivity) =
      (\<exists>acts. map_of CARBON_FACTORS (lower (data_category data)) = Some acts \<and>
              map_of acts (lower (data_activity data)) = None)) \<and>
   ((\<exists>res. calculate_emission now data d = Inr res) =
      (\<exists>acts factor. map_of CARBON_FACTORS (lower (data_category data)) = Some acts \<and>
              map_of acts (lower (data_activity data)) = Some factor)) \<and>
   calculate_emission now data d \<noteq> Inl ZeroDivisionError \<and>
   ((calculate now now' rq rows = Inl UnknownCategory) =
      (map_of simple_CARBON_FACTORS (lower (req_category rq)) = None)) \<and>
   ((calculate now now' rq rows = Inl UnknownActivity) =
      (\<exists>acts. map_of simple_CARBON_FACTORS (lower (req_category rq)) = Some acts \<and>
              map_of acts (lower (req_activity rq)) = None)) \<and>
   ((\<exists>res. calculate now now' rq rows = Inr res) =
      (\<exists>acts factor. map_of simple_CARBON_FACTORS (lower (req_category rq)) = Some acts \<and>
              map_of acts (lower (req_activity rq)) = Some factor)) \<and>
   calculate now now' rq rows \<noteq> Inl ZeroDivisionError"
  by (auto simp: calculate_emission_def calculate_def save_to_db_def Let_def
           split: option.splits)

theorem C2_compute_errors_witness:
  "calculate_emission 0 unknown_category_input [] = Inl UnknownCategory \<and>
   calculate_emission 0 unknown_activity_input [] = Inl UnknownActivity \<and>
   (\<exists>res. calculate_emission 0 example_input [] = Inr res)"
proof -
  have a: "map_of CARBON_FACTORS (lower (data_category unknown_category_input)) = None"
    by (simp add: unknown_category_input_def lower_examples CARBON_FACTORS_def)
  have b: "\<exists>acts. map_of CARBON_FACTORS (lower (data_category unknown_activity_input)) =
             Some acts \<and> map_of acts (lower (data_activity unknown_activity_input)) = None"
    by (simp add: unknown_activity_input_def lower_examples CARBON_FACTORS_def)
  have "map_of CARBON_FACTORS (lower (data_category example_input)) =
          Some (the (map_of CARBON_FACTORS ''transport'')) \<and>
        map_of (the (map_of CARBON_FACTORS ''transport''))
          (lower (data_activity example_input)) = Some 0.192"
    by (simp add: example_input_def lower_examples CARBON_FACTORS_def)
  then have c: "\<exists>acts factor. map_of CARBON_FACTORS (lower (data_category example_input)) =
             Some acts \<and> map_of acts (lower (data_activity example_input)) = Some factor"
    by blast
  show ?thesis
    using a b c
      C2_compute_errors[of 0 unknown_category_input "[]"]
      C2_compute_errors[of 0 unknown_activity_input "[]"]
      C2_compute_errors[of 0 example_input "[]"]
    apply -
    apply (intro conjI)
    apply simp
    apply simp
    apply simp
    done
qed

section \<open>Equivalents\<close>

lemma get_equivalents_example:
  "get_equivalents 19.2 =
     \<lparr>trees_needed = 0.9, km_by_car = 100, smartphones_charged = 2400,
      hours_of_tv = 218.2\<rparr>"
  by (simp add: get_equivalents_def py_round_def round_half_even_def)

text \<open>
  C9. For every CO2 mass, of any sign, the four equivalents are the quotients by 21.77,
  0.192, 0.008 and 0.088, rounded to one decimal (to a whole number for the
  smartphones): each is a multiple of a tenth (of one) at most half a step away from
  the quotient. The equivalents of zero are all zero.
\<close>

theorem C9_equivalents:
  "get_equivalents co2 =
     \<lparr>trees_needed = py_round (co2 / 21.77) 1, km_by_car = py_round (co2 / 0.192) 1,
      smartphones_charged = py_round (co2 / 0.008) 0,
      hours_of_tv = py_round (co2 / 0.088) 1\<rparr> \<and>
   (\<exists>k::int. trees_needed (get_equivalents co2) = of_int k / 10) \<and>
   \<bar>trees_needed (get_equivalents co2) - co2 / 21.77\<bar> \<le> 1 / 20 \<and>
   (\<exists>k::int. km_by_car (get_equivalents co2) = of_int k / 10) \<and>
   \<bar>km_by_car (get_equivalents co2) - co2 / 0.192\<bar> \<le> 1 / 20 \<and>
   (\<exists>k::int. smartphones_charged (get_equivalents co2) = of_int k) \<and>
   \<bar>smartphones_charged (get_equivalents co2) - co2 / 0.008\<bar> \<le> 1 / 2 \<and>
   (\<exists>k::int. hours_of_tv (get_equivalents co2) = of_int k / 10) \<and>
   \<bar>hours_of_tv (get_equivalents co2) - co2 / 0.088\<bar> \<le> 1 / 20 \<and>
   get_equivalents 0 =
     \<lparr>trees_needed = 0, km_by_car = 0, smartphones_charged = 0, hours_of_tv = 0\<rparr>"
proof -
  have grid1: "\<exists>k::int. py_round x 1 = of_int k / 10" for x
    using py_round_grid[of x 1] by simp
  have grid0: "\<exists>k::int. py_round x 0 = of_int k" for x
    using py_round_grid[of x 0] by simp
  have err1: "\<bar>py_round x 1 - x\<bar> \<le> 1 / 20" for x
    using py_round_error[of x 1] by simp
  have err0: "\<bar>py_round x 0 - x\<bar> \<le> 1 / 2" for x
    using py_round_error[of x 0] by simp
  have zero: "get_equivalents 0 =
      \<lparr>trees_needed = 0, km_by_car = 0, smartphones_charged = 0, hours_of_tv = 0\<rparr>"
    by (simp add: get_equivalents_def py_round_zero)
  show ?thesis
    unfolding get_equivalents_def Equivalents.select_convs
    using grid1 grid0 err1 err0 zero[unfolded get_equivalents_def] by blast
qed

section \<open>Recommendations\<close>

lemma category_recs_absent:
  "k \<notin> fst ` set bd \<Longrightarrow> (k = ''transport'' \<longrightarrow> TransportHigh \<notin> set (category_recs bd)) \<and>
     (k = ''food'' \<longrightarrow> ReduceMeat \<notin> set (category_recs bd)) \<and>
     (k = ''electricity'' \<longrightarrow> EfficientAppliances \<notin> set (category_recs bd))"
  by (induction bd rule: category_recs.induct) auto

lemma well_balanced_not_in_category_recs: "WellBalanced \<notin> set (category_recs bd)"
  by (induction bd rule: category_recs.induct) auto

lemma count_transport:
  "distinct (map fst bd) \<Longrightarrow>
   count_list (category_recs bd) TransportHigh =
     (case map_of bd ''transport'' of None \<Rightarrow> 0
      | Some data \<Rightarrow> if percentage data > 40 then 1 else 0)"
proof (induction bd rule: category_recs.induct)
  case 1
  then show ?case by simp
next
  case (2 cat data rest)
  show ?case
  proof (cases "cat = ''transport''")
    case True
    with 2 have "''transport'' \<notin> fst ` set rest" by auto
    then have "TransportHigh \<notin> set (category_recs rest)"
      using category_recs_absent by blast
    then show ?thesis using True by simp
  next
    case False
    then show ?thesis using 2 by simp
  qed
qed

lemma count_food:
  "distinct (map fst bd) \<Longrightarrow>
   count_list (category_recs bd) ReduceMeat =
     (case map_of bd ''food'' of None \<Rightarrow> 0
      | Some data \<Rightarrow> if percentage data > 40 then 1 else 0)"
proof (induction bd rule: category_recs.induct)
  case 1
  then show ?case by simp
next
  case (2 cat data rest)
  show ?case
  proof (cases "cat = ''food''")
    case True
    with 2 have "''food'' \<notin> fst ` set rest" by auto
    then have "ReduceMeat \<notin> set (category_recs rest)"
      using category_recs_absent by blast
    then show ?thesis using True by simp
  next
    case False
    then show ?thesis using 2 by simp
  qed
qed

lemma count_electricity:
  "distinct (map fst bd) \<Longrightarrow>
   count_list (category_recs bd) EfficientAppliances =
     (case map_of bd ''electricity'' of None \<Rightarrow> 0
      | Some data \<Rightarrow> if percentage data > 40 then 1 else 0)"
proof (induction bd rule: category_recs.induct)
  case 1
  then show ?case by simp
next
  case (2 cat data rest)
  show ?case
  proof (cases "cat = ''electricity''")
    case True
    with 2 have "''electricity'' \<notin> fst ` set rest" by auto
    then have "EfficientAppliances \<notin> set (category_recs rest)"
      using category_recs_absent by blast
    then show ?thesis using True by simp
  next
    case False
    then show ?thesis using 2 by simp
  qed
qed

lemma category_recs_none_over:
  "\<forall>(cat, data) \<in> set bd. \<not> percentage data > 40 \<Longrightarrow> category_recs bd = []"
  by (induction bd rule: category_recs.induct) auto

lemma category_recs_waste:
  "category_recs (bd1 @ (''waste'', w) # bd2) = category_recs (bd1 @ bd2)"
  by (induction bd1 rule: category_recs.induct) auto

lemma category_recs_empty_iff:
  "(category_recs bd = []) =
     (count_list (category_recs bd) TransportHigh = 0 \<and>
      count_list (category_recs bd) ReduceMeat = 0 \<and>
      count_list (category_recs bd) EfficientAppliances = 0)"
proof
  assume "category_recs bd = []" then show "count_list (category_recs bd) TransportHigh = 0 \<and>
      count_list (category_recs bd) ReduceMeat = 0 \<and>
      count_list (category_recs bd) EfficientAppliances = 0" by simp
next
  assume a: "count_list (category_recs bd) TransportHigh = 0 \<and>
      count_list (category_recs bd) ReduceMeat = 0 \<and>
      count_list (category_recs bd) EfficientAppliances = 0"
  show "category_recs bd = []"
  proof (cases "category_recs bd")
    case Nil then show ?thesis .
  next
    case (Cons r rs)
    then have "r \<in> set (category_recs bd)" by simp
    moreover from a have "TransportHigh \<notin> set (category_recs bd)" "ReduceMeat \<notin> set (category_recs bd)"
      "EfficientAppliances \<notin> set (category_recs bd)" by (simp_all add: count_list_0_iff)
    moreover note well_balanced_not_in_category_recs[of bd]
    ultimately have "r \<notin> {TransportHigh, ReduceMeat, EfficientAppliances, WellBalanced}"
      by auto
    moreover have "r \<in> {TransportHigh, ReduceMeat, EfficientAppliances, WellBalanced}"
      by (cases r) simp_all
    ultimately show ?thesis by simp
  qed
qed

text \<open>
  C5. In a breakdown (a dictionary, so with distinct categories) each of transport,
  food and electricity contributes its canned message exactly once when its percentage
  is strictly above 40 and not at all otherwise; an entry for waste contributes nothing,
  whatever its percentage (dropping it leaves the list unchanged); the "well balanced"
  message appears, once, exactly when none of the three messages does, so in
  particular when no category is above 40 the list is that single message.
\<close>

theorem C5_recommendations:
  assumes "distinct (map fst bd)"
  shows
   "count_list (get_recommendations bd) TransportHigh =
      (case map_of bd ''transport'' of None \<Rightarrow> 0
       | Some data \<Rightarrow> if percentage data > 40 then 1 else 0) \<and>
    count_list (get_recommendations bd) ReduceMeat =
      (case map_of bd ''food'' of None \<Rightarrow> 0
       | Some data \<Rightarrow> if percentage data > 40 then 1 else 0) \<and>
    count_list (get_recommendations bd) EfficientAppliances =
      (case map_of bd ''electricity'' of None \<Rightarrow> 0
       | Some data \<Rightarrow> if percentage data > 40 then 1 else 0) \<and>
    count_list (get_recommendations bd) WellBalanced =
      (if count_list (get_recommendations bd) TransportHigh = 0 \<and>
          count_list (get_recommendations bd) ReduceMeat = 0 \<and>
          count_list (get_recommendations bd) EfficientAppliances = 0 then 1 else 0) \<and>
    get_recommendations (bd1 @ (''waste'', w) # bd2) = get_recommendations (bd1 @ bd2) \<and>
    ((\<forall>(cat, data) \<in> set bd. \<not> percentage data > 40) \<longrightarrow>
       get_recommendations bd = [WellBalanced])"
proof -
  have c: "count_list (get_recommendations bd) r = count_list (category_recs bd) r"
    if "r \<noteq> WellBalanced" for r
    using that by (simp add: get_recommendations_def Let_def)
  have wb: "count_list (get_recommendations bd) WellBalanced =
      (if category_recs bd = [] then 1 else 0)"
    using well_balanced_not_in_category_recs[of bd]
    by (simp add: get_recommendations_def Let_def)
  have wb0: "count_list (category_recs bd) WellBalanced = 0"
    using well_balanced_not_in_category_recs[of bd] by simp
  show ?thesis
    using assms category_recs_empty_iff[of bd]
    by (simp add: c wb wb0 count_transport count_food count_electricity
        category_recs_none_over category_recs_waste get_recommendations_def Let_def)
qed

theorem C5_recommendations_witness:
  "distinct (map fst example_breakdown) \<and>
   count_list (get_recommendations example_breakdown) TransportHigh = 0 \<and>
   count_list (get_recommendations example_breakdown) ReduceMeat = 1 \<and>
   count_list (get_recommendations example_breakdown) EfficientAppliances = 0 \<and>
   count_list (get_recommendations example_breakdown) WellBalanced = 0 \<and>
   distinct (map fst balanced_breakdown) \<and>
   map (percentage \<circ> snd) balanced_breakdown = [40, 35, 25] \<and>
   get_recommendations balanced_breakdown = [WellBalanced]"
proof -
  have d: "distinct (map fst example_breakdown)"
    by (simp add: example_breakdown_def)
  have d': "distinct (map fst balanced_breakdown)"
    by (simp add: balanced_breakdown_def)
  have low: "\<forall>(cat, data) \<in> set balanced_breakdown. \<not> percentage data > 40"
    by (simp add: balanced_breakdown_def)
  have 1: "count_list (get_recommendations example_breakdown) TransportHigh = 0 \<and>
   count_list (get_recommendations example_breakdown) ReduceMeat = 1 \<and>
   count_list (get_recommendations example_breakdown) EfficientAppliances = 0 \<and>
   count_list (get_recommendations example_breakdown) WellBalanced = 0"
    using C5_recommendations[OF d] by (simp add: example_breakdown_def)
  have 2: "get_recommendations balanced_breakdown = [WellBalanced]"
    using C5_recommendations[OF d'] low by blast
  have p: "map (percentage \<circ> snd) balanced_breakdown = [40, 35, 25]"
    by (simp add: balanced_breakdown_def)
  from d d' p 1 2 show ?thesis by blast
qed

lemma recommendations_example: "get_recommendations example_breakdown = [ReduceMeat]"
  by (simp add: example_breakdown_def get_recommendations_def)

lemma recommendations_waste_only:
  "get_recommendations [(''waste'', \<lparr>total = 5, count = 1, activities = [(''landfill'', 5)], percentage = 100\<rparr>)] = [WellBalanced]"
  by (simp add: get_recommendations_def)

section \<open>Statistics\<close>

subsection \<open>The empty table\<close>

text \<open>
  C4. On an empty record set the statistics are the notice "No data yet" (a normal
  answer, not an error): nothing is divided. Both services.
\<close>

theorem C4_statistics_empty_notice:
  "get_statistics [] = Inr (Message ''No data yet. Make some calculations first!'') \<and>
   stats [] = Inr (SimpleMessage ''No data yet'')"
  by (simp add: get_statistics_def stats_def get_all_records_def sql_limit_def)

subsection \<open>The total and the division by it\<close>

lemma add_record_nonempty: "add_record bd r \<noteq> []"
  by (cases bd) (auto simp: add_record_def Let_def)

lemma foldl_add_record_nonempty: "bd \<noteq> [] \<or> d \<noteq> [] \<Longrightarrow> foldl add_record bd d \<noteq> []"
  by (induction d arbitrary: bd) (auto simp: add_record_nonempty)

lemma add_percentages_zero: "bd \<noteq> [] \<Longrightarrow> add_percentages 0 bd = Inl ZeroDivisionError"
  by (cases bd) (auto simp: py_div_def)

lemma add_percentages_nonzero:
  "t \<noteq> 0 \<Longrightarrow> add_percentages t bd =
     Inr (map (\<lambda>(cat, e). (cat, \<lparr>total = py_round (total e) 2, count = count e,
                                   activities = activities e,
                                   percentage = py_round (total e / t * 100) 1\<rparr>)) bd)"
  by (induction bd) (auto simp: py_div_def)

lemma get_statistics_zero_total:
  "d \<noteq> [] \<Longrightarrow> sum_list (map co2_kg d) = 0 \<Longrightarrow> get_statistics d = Inl ZeroDivisionError"
  by (simp add: get_statistics_def Let_def add_percentages_zero foldl_add_record_nonempty)

lemma timedelta_days_nonneg: "oldest \<le> newest \<Longrightarrow> 0 \<le> timedelta_days newest oldest"
  by (simp add: timedelta_days_def)


lemma add_row_nonempty: "add_row bd r \<noteq> []"
  by (cases bd) (auto simp: add_row_def Let_def)

lemma foldl_add_row_nonempty: "bd \<noteq> [] \<or> rows \<noteq> [] \<Longrightarrow> foldl add_row bd rows \<noteq> []"
  by (induction rows arbitrary: bd) (auto simp: add_row_nonempty)

lemma simple_percentages_zero:
  "bd \<noteq> [] \<Longrightarrow> simple_percentages 0 bd = Inl ZeroDivisionError"
  by (cases bd) (auto simp: py_div_def)

text \<open>
  C10. The statistics of a non-empty record set are asked to come out without a division
  error, also when the CO2 masses sum to zero. They do not: a calculation with amount 0
  is accepted and stored, and on the table holding just that record the percentage loop
  divides by the zero total and raises \<open>ZeroDivisionError\<close>, in both services.
\<close>

theorem C10_statistics_zero_total_raises:
  "(\<exists>resp. calculate_emission 0 zero_amount_input [] = Inr (zero_db, resp)) \<and>
   get_statistics zero_db = Inl ZeroDivisionError \<and>
   (\<exists>resp. calculate 0 0 zero_amount_request [] = Inr (zero_rows, resp)) \<and>
   stats zero_rows = Inl ZeroDivisionError"
proof -
  have "\<exists>resp. calculate_emission 0 zero_amount_input [] = Inr (zero_db, resp)"
    by (simp add: calculate_emission_def zero_amount_input_def zero_db_def lower_examples
        CARBON_FACTORS_def next_id_def Let_def)
  moreover have "get_statistics zero_db = Inl ZeroDivisionError"
    by (rule get_statistics_zero_total) (simp_all add: zero_db_def)
  moreover have "\<exists>resp. calculate 0 0 zero_amount_request [] = Inr (zero_rows, resp)"
    by (simp add: calculate_def zero_amount_request_def zero_rows_def lower_examples
        simple_CARBON_FACTORS_def save_to_db_def get_unit_def Let_def)
  moreover have "stats zero_rows = Inl ZeroDivisionError"
    by (simp add: stats_def zero_rows_def get_all_records_def sql_limit_def
        add_row_def py_div_def Let_def)
  ultimately show ?thesis by blast
qed

subsection \<open>The breakdown by category\<close>

lemma map_of_add_record:
  "map_of (add_record bd r) c =
     (if c = category r
      then Some \<lparr>total = (case map_of bd c of None \<Rightarrow> 0 | Some e \<Rightarrow> total e) + co2_kg r,
                 count = (case map_of bd c of None \<Rightarrow> 0 | Some e \<Rightarrow> count e) + 1,
                 activities = AList.update (activity r)
                   ((case map_of (case map_of bd c of None \<Rightarrow> [] | Some e \<Rightarrow> activities e)
                           (activity r) of None \<Rightarrow> 0 | Some v \<Rightarrow> v) + co2_kg r)
                   (case map_of bd c of None \<Rightarrow> [] | Some e \<Rightarrow> activities e)\<rparr>
      else map_of bd c)"
  by (auto simp: add_record_def Let_def update_conv' split: option.splits)

lemma keys_add_record: "fst ` set (add_record bd r) = insert (category r) (fst ` set bd)"
  by (simp add: add_record_def Let_def dom_update)

lemma distinct_add_record:
  "distinct (map fst bd) \<Longrightarrow> distinct (map fst (add_record bd r))"
  by (simp add: add_record_def Let_def distinct_update)

lemma keys_foldl_add_record:
  "fst ` set (foldl add_record bd d) = fst ` set bd \<union> category ` set d"
  by (induction d arbitrary: bd) (auto simp: keys_add_record)

lemma distinct_foldl_add_record:
  "distinct (map fst bd) \<Longrightarrow> distinct (map fst (foldl add_record bd d))"
  by (induction d arbitrary: bd) (simp_all add: distinct_add_record)

lemma totals_foldl_add_record:
  "c \<in> fst ` set bd \<union> category ` set d \<Longrightarrow>
   \<exists>e. map_of (foldl add_record bd d) c = Some e \<and>
       total e = (case map_of bd c of None \<Rightarrow> 0 | Some e0 \<Rightarrow> total e0) +
                 sum_list (map co2_kg (filter (\<lambda>r. category r = c) d)) \<and>
       count e = (case map_of bd c of None \<Rightarrow> 0 | Some e0 \<Rightarrow> count e0) +
                 int (length (filter (\<lambda>r. category r = c) d))"
proof (induction d arbitrary: bd)
  case Nil
  then obtain e where "map_of bd c = Some e"
    by (metis Un_empty_right image_empty list.set(1) map_of_eq_None_iff not_Some_eq)
  then show ?case by simp
next
  case (Cons r d)
  have "c \<in> fst ` set (add_record bd r) \<union> category ` set d"
    using Cons.prems by (auto simp: keys_add_record)
  from Cons.IH[OF this] show ?case
    by (auto simp: map_of_add_record split: option.splits)
qed

lemma map_fst_map_values: "map fst (map (\<lambda>(k, v). (k, g v)) xs) = map fst xs"
  by (induction xs) auto

lemma get_statistics_breakdown_eq:
  assumes "d \<noteq> []" and "sum_list (map co2_kg d) \<noteq> 0"
  shows "\<exists>st. get_statistics d = Inr (Stats st) \<and>
           breakdown st =
             map (\<lambda>(cat, e). (cat, \<lparr>total = py_round (total e) 2, count = count e,
                    activities = activities e,
                    percentage = py_round (total e / sum_list (map co2_kg d) * 100) 1\<rparr>))
               (foldl add_record [] d)"
  using assms
  by (simp add: get_statistics_def Let_def add_percentages_nonzero py_div_def)

text \<open>
  In \<open>main.py\<close> the statistics cover the whole table: the categories of the breakdown
  are the categories of the records, and each category carries the sum of the CO2 masses
  of all its records (rounded to two decimals) and that sum as a percentage of the sum
  over all records (rounded to one decimal).
\<close>

lemma get_statistics_breakdown:
  assumes "d \<noteq> []" and "sum_list (map co2_kg d) \<noteq> 0"
  shows "\<exists>st. get_statistics d = Inr (Stats st) \<and>
           fst ` set (breakdown st) = category ` set d \<and>
           distinct (map fst (breakdown st)) \<and>
           (\<forall>c \<in> category ` set d. \<exists>e.
              map_of (breakdown st) c = Some e \<and>
              percentage e =
                py_round (sum_list (map co2_kg (filter (\<lambda>r. category r = c) d)) /
                          sum_list (map co2_kg d) * 100) 1 \<and>
              total e = py_round (sum_list (map co2_kg (filter (\<lambda>r. category r = c) d))) 2 \<and>
              count e = int (length (filter (\<lambda>r. category r = c) d)))"
proof -
  define t where "t = sum_list (map co2_kg d)"
  define bd0 where "bd0 = foldl add_record [] d"
  define g where "g = (\<lambda>e::CategoryData. \<lparr>total = py_round (total e) 2, count = count e,
                    activities = activities e,
                    percentage = py_round (total e / t * 100) 1\<rparr>)"
  from get_statistics_breakdown_eq[OF assms] obtain st where
    st: "get_statistics d = Inr (Stats st)" and
    bd: "breakdown st = map (\<lambda>(cat, e). (cat, g e)) bd0"
    unfolding t_def bd0_def g_def by blast
  have fst_eq: "map fst (breakdown st) = map fst bd0"
    unfolding bd by (rule map_fst_map_values)
  have "set (map fst bd0) = category ` set d"
    unfolding bd0_def using keys_foldl_add_record[of "[]" d] by simp
  then have keys: "fst ` set (breakdown st) = category ` set d"
    using fst_eq by (metis set_map)
  have dist: "distinct (map fst (breakdown st))"
    unfolding fst_eq bd0_def by (rule distinct_foldl_add_record) simp
  have look: "map_of (breakdown st) c = map_option g (map_of bd0 c)" for c
    unfolding bd by (simp add: map_of_map)
  have cats: "\<exists>e. map_of (breakdown st) c = Some e \<and>
              percentage e =
                py_round (sum_list (map co2_kg (filter (\<lambda>r. category r = c) d)) / t * 100) 1 \<and>
              total e = py_round (sum_list (map co2_kg (filter (\<lambda>r. category r = c) d))) 2 \<and>
              count e = int (length (filter (\<lambda>r. category r = c) d))"
    if "c \<in> category ` set d" for c
  proof -
    from that have "c \<in> fst ` set [] \<union> category ` set d" by simp
    from totals_foldl_add_record[OF this] obtain e0 where
      e0: "map_of bd0 c = Some e0"
      "total e0 = sum_list (map co2_kg (filter (\<lambda>r. category r = c) d))"
      "count e0 = int (length (filter (\<lambda>r. category r = c) d))"
      unfolding bd0_def by auto
    show ?thesis
      by (rule exI[of _ "g e0"]) (simp add: look e0 g_def)
  qed
  show ?thesis
    using st keys dist cats unfolding t_def by blast
qed

lemma get_statistics_petrol_db: "get_statistics petrol_db = Inr (Stats petrol_stats)"
  by (simp add: get_statistics_def petrol_db_def petrol_stats_def Let_def add_record_def
      py_div_def py_round_def round_half_even_def timedelta_days_def get_equivalents_def
      get_recommendations_def)

lemma get_statistics_example_db: "get_statistics example_db = Inr (Stats example_stats)"
  by (simp add: get_statistics_def example_db_def example_stats_def Let_def add_record_def
      py_div_def py_round_def round_half_even_def timedelta_days_def get_equivalents_def
      get_recommendations_def)

subsection \<open>The records that are aggregated\<close>

lemma get_all_records_rows21:
  "get_all_records rows21 = map row_at [21, 20, 19, 18, 17, 16, 15, 14, 13, 12, 11, 10, 9, 8, 7, 6, 5, 4, 3, 2]"
  by (simp add: get_all_records_def rows21_def sql_limit_def row_at_def)

lemma stats_rows21: "stats rows21 = Inr (SimpleStats rows21_stats)"
  unfolding stats_def get_all_records_rows21
  by (simp add: row_at_def Let_def add_row_def py_div_def py_round_def round_half_even_def rows21_stats_def)

text \<open>
  C3. The statistics are asked to aggregate over every persisted record. In
  \<open>simple_api.py\<close> they do not: \<open>get_all_records\<close> reads the 20 newest rows only, so
  on a table of 21 records of 4 kg each (84 kg in all) the statistics report 20 records
  and a total of 80 kg.
\<close>

theorem C3_simple_stats_newest_20_only:
  "length rows21 = 21 \<and> sum_list (map row_co2_kg rows21) = 84 \<and>
   stats rows21 = Inr (SimpleStats rows21_stats) \<and>
   simple_total_records rows21_stats = 20 \<and>
   simple_total_emissions_kg rows21_stats = 80"
  using stats_rows21 by (simp add: rows21_def row_at_def rows21_stats_def)

subsection \<open>The daily average\<close>

lemma oldest_timestamp_Min: "d \<noteq> [] \<Longrightarrow> oldest_timestamp d = Min (timestamp ` set d)"
  by (induction d rule: oldest_timestamp.induct) (simp_all add: min_def Min_insert2 Min.insert)

lemma newest_timestamp_Max: "d \<noteq> [] \<Longrightarrow> newest_timestamp d = Max (timestamp ` set d)"
  by (induction d rule: newest_timestamp.induct) (simp_all)

lemma oldest_le_newest: "d \<noteq> [] \<Longrightarrow> oldest_timestamp d \<le> newest_timestamp d"
  by (simp add: oldest_timestamp_Min newest_timestamp_Max)

lemma days_or_1:
  assumes "oldest \<le> newest"
  shows "(if timedelta_days newest oldest \<noteq> 0 then timedelta_days newest oldest else 1) =
           max 1 (timedelta_days newest oldest)"
  using timedelta_days_nonneg[OF assms] by (simp add: max_def)

lemma same_day_zero_days:
  assumes "oldest \<le> newest" and "newest div 86400000000 = oldest div 86400000000"
  shows "timedelta_days newest oldest = 0"
proof -
  have "newest - oldest < 86400000000"
    using assms(2) by (smt (verit) div_add_self2 zdiv_mono1)
  with assms(1) show ?thesis by (simp add: timedelta_days_def)
qed

text \<open>
  C8, as stated, fails. The claim is that the daily average in the answer is the total
  divided by the larger of 1 and the days between the oldest and the newest record. For
  the table holding one record of 0.192 kg that quotient is 0.192, and the answer shows
  0.19: the average is rounded to two decimals.
\<close>

theorem C8_daily_average_counterexample:
  "get_statistics petrol_db = Inr (Stats petrol_stats) \<and>
   daily_average_kg (summary petrol_stats) \<noteq>
     sum_list (map co2_kg petrol_db) /
       of_int (max 1 (timedelta_days (Max (timestamp ` set petrol_db))
                                     (Min (timestamp ` set petrol_db))))"
proof -
  have "daily_average_kg (summary petrol_stats) = 0.19"
    by (simp add: petrol_stats_def)
  moreover have "sum_list (map co2_kg petrol_db) /
       of_int (max 1 (timedelta_days (Max (timestamp ` set petrol_db))
                                     (Min (timestamp ` set petrol_db)))) = 0.192"
    by (simp add: petrol_db_def timedelta_days_def)
  ultimately show ?thesis
    using get_statistics_petrol_db by simp
qed

text \<open>
  C8, amended. For a non-empty record set whose CO2 masses do not sum to zero, the
  statistics come out, the reported period is the larger of 1 and the number of whole
  24-hour periods between the oldest and the newest timestamp (so at least 1, and
  exactly 1 when both lie in the same calendar day), and the reported daily average is
  the total divided by that period, rounded to two decimals.
\<close>

theorem C8_daily_average_rounded:
  assumes "d \<noteq> []" and "sum_list (map co2_kg d) \<noteq> 0"
  shows "\<exists>st. get_statistics d = Inr (Stats st) \<and>
           recording_period_days (summary st) =
             max 1 (timedelta_days (Max (timestamp ` set d)) (Min (timestamp ` set d))) \<and>
           1 \<le> recording_period_days (summary st) \<and>
           daily_average_kg (summary st) =
             py_round (sum_list (map co2_kg d) /
                         of_int (max 1 (timedelta_days (Max (timestamp ` set d))
                                                       (Min (timestamp ` set d))))) 2 \<and>
           (Max (timestamp ` set d) div 86400000000 = Min (timestamp ` set d) div 86400000000
              \<longrightarrow> recording_period_days (summary st) = 1)"
proof -
  let ?o = "oldest_timestamp d" and ?n = "newest_timestamp d"
  have le: "?o \<le> ?n" using assms(1) by (rule oldest_le_newest)
  have mm: "Min (timestamp ` set d) = ?o" "Max (timestamp ` set d) = ?n"
    using assms(1) by (simp_all add: oldest_timestamp_Min newest_timestamp_Max)
  have same: "?n div 86400000000 = ?o div 86400000000 \<Longrightarrow> max 1 (timedelta_days ?n ?o) = 1"
    using same_day_zero_days[OF le] by simp
  show ?thesis
    unfolding mm
    using assms same
    by (simp add: get_statistics_def Let_def add_percentages_nonzero py_div_def
        days_or_1[OF le])
qed

theorem C8_daily_average_rounded_witness:
  "example_db \<noteq> [] \<and> sum_list (map co2_kg example_db) \<noteq> 0 \<and>
   (\<exists>st. get_statistics example_db = Inr (Stats st) \<and>
      recording_period_days (summary st) = 2 \<and>
      daily_average_kg (summary st) = 147.1) \<and>
   petrol_db \<noteq> [] \<and> sum_list (map co2_kg petrol_db) \<noteq> 0 \<and>
   Max (timestamp ` set petrol_db) div 86400000000 =
     Min (timestamp ` set petrol_db) div 86400000000 \<and>
   (\<exists>st. get_statistics petrol_db = Inr (Stats st) \<and>
      recording_period_days (summary st) = 1)"
proof -
  have a: "example_db \<noteq> []" and b: "sum_list (map co2_kg example_db) \<noteq> 0"
    by (simp_all add: example_db_def)
  have days: "max 1 (timedelta_days (Max (timestamp ` set example_db))
                                   (Min (timestamp ` set example_db))) = 2"
    by (simp add: example_db_def timedelta_days_def)
  have avg: "py_round (sum_list (map co2_kg example_db) / 2) 2 = 147.1"
    by (simp add: example_db_def py_round_def round_half_even_def)
  from C8_daily_average_rounded[OF a b] obtain st where
    "get_statistics example_db = Inr (Stats st)"
    "recording_period_days (summary st) = 2"
    "daily_average_kg (summary st) = 147.1"
    unfolding days using avg by auto
  then have 1: "\<exists>st. get_statistics example_db = Inr (Stats st) \<and>
      recording_period_days (summary st) = 2 \<and>
      daily_average_kg (summary st) = 147.1" by blast
  have a': "petrol_db \<noteq> []" and b': "sum_list (map co2_kg petrol_db) \<noteq> 0"
    by (simp_all add: petrol_db_def)
  have same: "Max (timestamp ` set petrol_db) div 86400000000 =
     Min (timestamp ` set petrol_db) div 86400000000"
    by (simp add: petrol_db_def)
  from C8_daily_average_rounded[OF a' b'] same
  have 2: "\<exists>st. get_statistics petrol_db = Inr (Stats st) \<and>
      recording_period_days (summary st) = 1" by blast
  from a b 1 a' b' same 2 show ?thesis by blast
qed

section \<open>Stored and displayed values\<close>



section \<open>History\<close>

lemma order_by_timestamp_desc_mset: "mset (order_by_timestamp_desc d) = mset d"
  by (simp add: order_by_timestamp_desc_def)

lemma order_by_timestamp_desc_sorted:
  "sorted_wrt (\<lambda>a b. timestamp b \<le> timestamp a) (order_by_timestamp_desc d)"
proof -
  have "sorted (map (\<lambda>r. - timestamp r) (order_by_timestamp_desc d))"
    by (simp add: order_by_timestamp_desc_def)
  then show ?thesis by (simp add: sorted_map)
qed






lemma get_history_example:
  "get_history (Some 2) example_db =
     \<lparr>history_total_records = 2, total_co2_kg = 275,
      records = [history_item (example_db ! 2), history_item (example_db ! 1)]\<rparr>"
  by (simp add: get_history_def Let_def sql_limit_def order_by_timestamp_desc_def
        example_db_def py_round_def round_half_even_def numeral_2_eq_2)


end
